theory Spec2Isabelle
  imports Complex_Main
begin

chapter \<open>The transfer engine of sjcloud-data-transfer\<close>

text \<open>
  A shallow embedding of the parts of the repository that move files: the human-readable
  size formatter of the utilities module, the byte-range plan of a multipart upload, the
  command-line backend (download, remote-size polling, upload) and the API backend
  (class \<open>UploadTransfer\<close>).

  Callback code is modelled by the trace of calls it makes. Everything the environment
  decides (whether a shell command fails, what a describe call returns, whether a PUT
  request errors) is an argument of the model, so each branch of the source is a branch
  of a definition.
\<close>

section \<open>JavaScript numbers\<close>

text \<open>
  A JavaScript number is modelled as NaN, one of the two infinities, or an exact rational.
  Rounding error of doubles and the sign of zero are not modelled.
\<close>

datatype number = NaN | PosInfinity | NegInfinity | Finite rat

fun isNaN :: "number \<Rightarrow> bool" where
  "isNaN NaN = True"
| "isNaN _ = False"

text \<open>\<open>a < b\<close> and \<open>a >= b\<close>: every comparison with NaN is false.\<close>

fun js_lt :: "number \<Rightarrow> number \<Rightarrow> bool" where
  "js_lt NaN _ = False"
| "js_lt _ NaN = False"
| "js_lt PosInfinity _ = False"
| "js_lt _ NegInfinity = False"
| "js_lt NegInfinity _ = True"
| "js_lt _ PosInfinity = True"
| "js_lt (Finite a) (Finite b) = (a < b)"

fun js_ge :: "number \<Rightarrow> number \<Rightarrow> bool" where
  "js_ge NaN _ = False"
| "js_ge _ NaN = False"
| "js_ge a b = (\<not> js_lt a b)"

fun js_abs :: "number \<Rightarrow> number" where
  "js_abs NaN = NaN"
| "js_abs PosInfinity = PosInfinity"
| "js_abs NegInfinity = PosInfinity"
| "js_abs (Finite a) = Finite \<bar>a\<bar>"

definition signed_infinity :: "bool \<Rightarrow> number" where
  "signed_infinity positive = (if positive then PosInfinity else NegInfinity)"

text \<open>\<open>a / b\<close>. A zero divisor counts as \<open>+0\<close>.\<close>

fun js_div :: "number \<Rightarrow> number \<Rightarrow> number" where
  "js_div NaN _ = NaN"
| "js_div _ NaN = NaN"
| "js_div (Finite a) (Finite b) =
     (if b = 0 then (if a = 0 then NaN else signed_infinity (0 < a)) else Finite (a / b))"
| "js_div (Finite a) _ = Finite 0"
| "js_div PosInfinity (Finite b) = signed_infinity (0 \<le> b)"
| "js_div NegInfinity (Finite b) = signed_infinity (b < 0)"
| "js_div _ _ = NaN"




text \<open>\<open>Math.round\<close>: the nearest integer, a tie going up.\<close>

fun Math_round :: "number \<Rightarrow> number" where
  "Math_round (Finite a) = Finite (of_int \<lfloor>a + 1 / 2\<rfloor>)"
| "Math_round x = x"

subsection \<open>Printing and reading numbers\<close>

fun digits :: "nat \<Rightarrow> string" where
  "digits n = (if n < 10 then [''0123456789'' ! n] else digits (n div 10) @ [''0123456789'' ! (n mod 10)])"

definition int_to_string :: "int \<Rightarrow> string" where
  "int_to_string i = (if i < 0 then ''-'' @ digits (nat (- i)) else digits (nat i))"

text \<open>
  \<open>x.toFixed(1)\<close>: \<open>x\<close> rounded to tenths (a tie going to the larger value), printed
  with one decimal. \<open>tenths\<close> is that number of tenths.
\<close>

definition tenths :: "rat \<Rightarrow> int" where
  "tenths a = \<lfloor>a * 10 + 1 / 2\<rfloor>"

definition print_tenths :: "int \<Rightarrow> string" where
  "print_tenths t =
     (if t < 0 then ''-'' @ digits (nat (- t) div 10) @ ''.'' @ digits (nat (- t) mod 10)
      else digits (nat t div 10) @ ''.'' @ digits (nat t mod 10))"

fun toFixed1 :: "number \<Rightarrow> string" where
  "toFixed1 NaN = ''NaN''"
| "toFixed1 PosInfinity = ''Infinity''"
| "toFixed1 NegInfinity = ''-Infinity''"
| "toFixed1 (Finite a) = print_tenths (tenths a)"

text \<open>
  \<open>String(x)\<close> for a value \<open>Math.round\<close> returns: NaN, an infinity, or an integer,
  printed in decimal. (A magnitude of \<open>10^21\<close> and more, which JavaScript prints with an
  exponent, is printed in full here.)
\<close>

fun toString :: "number \<Rightarrow> string" where
  "toString NaN = ''NaN''"
| "toString PosInfinity = ''Infinity''"
| "toString NegInfinity = ''-Infinity''"
| "toString (Finite a) = int_to_string \<lfloor>a\<rfloor>"

text \<open>
  \<open>parseFloat\<close> on the strings \<open>toFixed\<close> produces: an optional sign, then
  \<open>Infinity\<close>, or decimal digits with an optional fraction. Anything else is NaN.
\<close>

definition digit_value :: "char \<Rightarrow> nat option" where
  "digit_value c = map_of (zip ''0123456789'' [0 ..< 10]) c"

fun read_digits :: "string \<Rightarrow> nat \<Rightarrow> nat \<Rightarrow> (nat \<times> nat \<times> string)" where
  "read_digits [] acc k = (acc, k, [])"
| "read_digits (c # cs) acc k =
     (case digit_value c of
        None \<Rightarrow> (acc, k, c # cs)
      | Some d \<Rightarrow> read_digits cs (acc * 10 + d) (Suc k))"

definition parse_unsigned :: "string \<Rightarrow> number" where
  "parse_unsigned s =
     (if take 8 s = ''Infinity'' then PosInfinity
      else
        (case read_digits s 0 0 of
           (whole, k, rest) \<Rightarrow>
             (case rest of
                CHR ''.'' # cs \<Rightarrow>
                  (case read_digits cs 0 0 of
                     (f, j, _) \<Rightarrow>
                       if k = 0 \<and> j = 0 then NaN
                       else Finite (of_nat whole + of_nat f / 10 ^ j))
              | _ \<Rightarrow> if k = 0 then NaN else Finite (of_nat whole))))"

fun js_neg :: "number \<Rightarrow> number" where
  "js_neg NaN = NaN"
| "js_neg PosInfinity = NegInfinity"
| "js_neg NegInfinity = PosInfinity"
| "js_neg (Finite a) = Finite (- a)"

fun parseFloat :: "string \<Rightarrow> number" where
  "parseFloat (c # cs) =
     (if c = CHR ''-'' then js_neg (parse_unsigned cs)
      else if c = CHR ''+'' then parse_unsigned cs
      else parse_unsigned (c # cs))"
| "parseFloat [] = NaN"

section \<open>The size formatter\<close>

text \<open>
  \<open>readableFileSize(bytes, roundNumbers = false, divisor = 1000)\<close> of the utilities
  module. An omitted argument is \<open>None\<close> and takes its default.
\<close>

definition units :: "string list" where
  "units = [''kB'', ''MB'', ''GB'', ''TB'', ''PB'', ''EB'', ''ZB'', ''YB'']"

text \<open>
  The \<open>do ... while (byteCount >= divisor && u < units.length - 1)\<close> loop, entered with
  \<open>u = -1\<close>; it returns the final \<open>byteCount\<close> and \<open>u\<close>.
\<close>

function unit_loop :: "number \<Rightarrow> number \<Rightarrow> int \<Rightarrow> number \<times> int" where
  "unit_loop divisor byteCount u =
     (let byteCount' = js_div byteCount divisor; u' = u + 1
      in if js_ge byteCount' divisor \<and> u' < int (length units) - 1
         then unit_loop divisor byteCount' u'
         else (byteCount', u'))"
  by pat_completeness auto
termination
  by (relation "measure (\<lambda>(divisor, byteCount, u). nat (int (length units) - u))") auto

declare unit_loop.simps [simp del]

definition readableFileSize :: "number \<Rightarrow> bool option \<Rightarrow> number option \<Rightarrow> string" where
  "readableFileSize bytes roundNumbers_arg divisor_arg =
     (let roundNumbers = (case roundNumbers_arg of None \<Rightarrow> False | Some b \<Rightarrow> b);
          divisor = (case divisor_arg of None \<Rightarrow> Finite 1000 | Some d \<Rightarrow> d)
      in if isNaN bytes \<or> bytes = Finite 0 then ''0 GB''
         else
           let byteCount = js_abs bytes
           in if js_lt byteCount divisor then toString (Math_round byteCount) @ '' B''
              else
                (case unit_loop divisor byteCount (- 1) of
                   (byteCount', u) \<Rightarrow>
                     let number = toFixed1 byteCount';
                         number' = (if roundNumbers then toString (Math_round (parseFloat number))
                                    else number)
                     in number' @ '' '' @ units ! nat u))"

section \<open>The byte-range plan\<close>

text \<open>
  A byte range \<open>{start, end}\<close>, both ends inclusive (\<open>utils.IByteRange\<close>).
\<close>

record IByteRange =
  range_start :: int
  range_end :: int

definition range_size :: "IByteRange \<Rightarrow> int" where
  "range_size r = range_end r - range_start r + 1"

datatype plan_error = InvalidSizeError

text \<open>
  Modelled from the spec: \<open>utils.byteRanges(size, maximumPartSize)\<close>, which
  \<open>UploadTransfer.prepare\<close> calls, is not among the source files. The spec's
  Byte-Range Planner is followed: \<open>plan(fileSize, maxPartSize)\<close> fails with
  \<open>InvalidSizeError\<close> if \<open>fileSize < 0\<close> or \<open>maxPartSize <= 0\<close>, and
  \<open>plan(100000, 30000)\<close> is \<open>[0,29999], [30000,59999], [60000,89999], [90000,99999]\<close>:
  ranges of \<open>maxPartSize\<close> bytes from offset 0, the last one cut at the end of the file.
  For the empty file the policy chosen is the plan with no part.
\<close>

function ranges_from :: "int \<Rightarrow> int \<Rightarrow> int \<Rightarrow> IByteRange list" where
  "ranges_from offset fileSize maxPartSize =
     (if maxPartSize \<le> 0 \<or> fileSize \<le> offset then []
      else \<lparr>range_start = offset, range_end = min (offset + maxPartSize) fileSize - 1\<rparr>
             # ranges_from (offset + maxPartSize) fileSize maxPartSize)"
  by pat_completeness auto
termination
  by (relation "measure (\<lambda>(offset, fileSize, maxPartSize). nat (fileSize - offset))") auto

declare ranges_from.simps [simp del]

text \<open>
  Modelled from the spec: \<open>utils.byteRanges\<close> itself (not among the source files),
  the spec's \<open>plan\<close> with its two error cases.
\<close>

definition byteRanges :: "int \<Rightarrow> int \<Rightarrow> plan_error + IByteRange list" where
  "byteRanges fileSize maxPartSize =
     (if fileSize < 0 \<or> maxPartSize \<le> 0 then Inl InvalidSizeError
      else Inr (ranges_from 0 fileSize maxPartSize))"

text \<open>
  \<open>tiles a rs b\<close>: the ranges \<open>rs\<close>, in their order, are non-empty, the first starts at
  \<open>a\<close>, each next one starts at the byte after the end of the one before, and the last
  ends at \<open>b - 1\<close>. \<open>covered rs\<close> is the set of bytes in some range of \<open>rs\<close>.
\<close>

fun tiles :: "int \<Rightarrow> IByteRange list \<Rightarrow> int \<Rightarrow> bool" where
  "tiles a [] b = (a = b)"
| "tiles a (r # rs) b =
     (range_start r = a \<and> range_start r \<le> range_end r \<and> tiles (range_end r + 1) rs b)"

definition covered :: "IByteRange list \<Rightarrow> int set" where
  "covered rs = (\<Union>r \<in> set rs. {range_start r .. range_end r})"

section \<open>The command-line backend\<close>

text \<open>
  The backend drives the \<open>dx\<close> command-line tool. A function is modelled by the calls it
  makes, in the order it makes them. What \<open>utils.runCommandSync\<close> does (return or throw)
  and what \<open>utils.runCommand\<close> passes to its callback are arguments.
\<close>

datatype platform = Darwin | Linux | Win32 | OtherPlatform

datatype sync_result = Returns | Throws string

datatype command_result = CommandError string | CommandOutput string

datatype call =
    RunCommandSync string
  | RunCommand string
  | WatchFile string
  | SetInterval
  | ClearInterval
  | DescribeDXItem string
  | UpdateCb number
  | FinishedCb "string option" "string option"

text \<open>
  \<open>utils.runCommandSync(cmd)\<close>: the call, and the error it throws if any.
  \<open>utils.runCommand(cmd, callback)\<close> calls back with \<open>(err, null)\<close> or
  \<open>(null, stdout)\<close>.
\<close>

definition runCommandSync :: "sync_result \<Rightarrow> string \<Rightarrow> call list \<times> string option" where
  "runCommandSync result cmd =
     ([RunCommandSync cmd], (case result of Returns \<Rightarrow> None | Throws e \<Rightarrow> Some e))"

definition callback_args :: "command_result \<Rightarrow> string option \<times> string option" where
  "callback_args result =
     (case result of CommandError e \<Rightarrow> (Some e, None) | CommandOutput out \<Rightarrow> (None, Some out))"

definition quoted :: "string \<Rightarrow> string" where
  "quoted s = [CHR 0x27] @ s @ [CHR 0x27]"

subsection \<open>\<open>downloadDxFile\<close>\<close>





subsection \<open>\<open>watchRemoteFile\<close>\<close>

record SJDTAFile =
  path :: string
  raw_size :: number
  sizeCheckingLock :: bool
  largestReportedProgress :: number










subsection \<open>\<open>uploadFile\<close>\<close>

text \<open>
  \<open>basename\<close> stands for \<open>path.basename(file.path.trim())\<close>; an omitted
  \<open>remoteFolder\<close> is \<open>None\<close>. The result is the file object as \<open>uploadFile\<close> leaves it,
  the calls made (with those of the two command callbacks, in the order they run) and the
  error thrown, if any.
\<close>

definition dxRemotePath_of :: "string \<Rightarrow> string \<Rightarrow> string \<Rightarrow> string" where
  "dxRemotePath_of projectId remoteFolder basename =
     projectId @ '': '' @ remoteFolder @ '' /'' @ basename"

definition remove_command :: "string \<Rightarrow> string" where
  "remove_command dxRemotePath = ''dx rm -a '' @ quoted dxRemotePath @ '' || true''"

definition upload_command :: "string \<Rightarrow> string \<Rightarrow> string" where
  "upload_command dxRemotePath file_path =
     ''dx upload -p --path '' @ quoted dxRemotePath @ '' '' @ quoted file_path"

definition tag_command :: "string \<Rightarrow> string \<Rightarrow> string" where
  "tag_command needs_analysis_tag dxRemotePath =
     ''dx tag '' @ quoted dxRemotePath @ '' '' @ needs_analysis_tag"

definition finishedCbWrapper :: "string option \<Rightarrow> string option \<Rightarrow> call list" where
  "finishedCbWrapper err result = [ClearInterval, FinishedCb err result]"

definition tag_callback :: "command_result \<Rightarrow> call list" where
  "tag_callback tag_result =
     (case callback_args tag_result of
        (err, stdout) \<Rightarrow>
          (if err \<noteq> None then finishedCbWrapper err None else [])
            @ finishedCbWrapper None stdout)"

definition upload_callback :: "string \<Rightarrow> string \<Rightarrow> command_result \<Rightarrow> command_result \<Rightarrow> call list" where
  "upload_callback needs_analysis_tag dxRemotePath upload_result tag_result =
     (case callback_args upload_result of
        (err, stdout) \<Rightarrow>
          if err \<noteq> None then finishedCbWrapper err None
          else RunCommand (tag_command needs_analysis_tag dxRemotePath) # tag_callback tag_result)"

definition uploadFile ::
  "string \<Rightarrow> sync_result \<Rightarrow> command_result \<Rightarrow> command_result
     \<Rightarrow> SJDTAFile \<Rightarrow> string \<Rightarrow> string \<Rightarrow> string option
     \<Rightarrow> SJDTAFile \<times> call list \<times> string option" where
  "uploadFile needs_analysis_tag remove_result upload_result tag_result
       file basename projectId remoteFolder_arg =
     (let remoteFolder = (case remoteFolder_arg of None \<Rightarrow> ''/uploads'' | Some f \<Rightarrow> f);
          dxRemotePath = dxRemotePath_of projectId remoteFolder basename;
          removal = (case runCommandSync remove_result (remove_command dxRemotePath) of
                       (calls, Some e) \<Rightarrow> calls
                     | (calls, None) \<Rightarrow> calls);
          file' = file\<lparr>largestReportedProgress := Finite (- 1)\<rparr>
      in (file',
          removal
            @ [SetInterval, RunCommand (upload_command dxRemotePath (path file))]
            @ upload_callback needs_analysis_tag dxRemotePath upload_result tag_result,
          None))"

text \<open>The invocations of the finished callback among some calls, in order.\<close>

fun finished_calls :: "call list \<Rightarrow> (string option \<times> string option) list" where
  "finished_calls [] = []"
| "finished_calls (FinishedCb err result # cs) = (err, result) # finished_calls cs"
| "finished_calls (_ # cs) = finished_calls cs"

section \<open>The API backend: \<open>UploadTransfer\<close>\<close>

text \<open>
  An awaited promise resolves with a value, rejects with an error, or never settles.
  \<open>await\<close> of a promise that rejects throws, and of one that never settles never
  returns; \<open>unsettled\<close> carries either outcome to the promise of the enclosing
  \<open>async\<close> function.
\<close>

datatype 'a promise = Resolved 'a | Rejected string | Pending

fun unsettled :: "'a promise \<Rightarrow> 'b promise" where
  "unsettled (Rejected e) = Rejected e"
| "unsettled _ = Pending"

text \<open>
  The calls of the class on the API client, the file system, the HTTP library and its two
  callbacks. \<open>FileUpload id index md5 size\<close> is \<open>client.file.upload(id, {index, md5, size})\<close>;
  \<open>Put body\<close> is the PUT request, with the bytes its body stream delivers;
  \<open>Finished (Some e)\<close> is \<open>finishedCb(e, null)\<close> and \<open>Finished None\<close> is
  \<open>finishedCb(null, {})\<close>. The progress reports of the \<open>drain\<close> handler are not part
  of the trace.
\<close>

datatype api_call =
    ProjectDescribe string
  | FileNew string string string
  | CreateReadStream string int int
  | Md5Sum string int int
  | FileUpload string int string int
  | Put string
  | FileClose string
  | ModuleAbort
  | Finished "string option"

text \<open>
  \<open>this.request\<close> is \<open>None\<close> for \<open>null\<close>, else the PUT request of the part with the
  given index, with whether \<open>abort()\<close> was called on that request.
\<close>

record put_request =
  part_index :: int
  aborted :: bool

record UploadTransfer =
  src :: string
  src_size :: int
  request :: "put_request option"
  bytesRead :: int

text \<open>
  \<open>fs.createReadStream(src, {start, end})\<close> delivers the bytes \<open>start..end\<close> of the
  file, both ends inclusive; \<open>content\<close> is the content of the file at \<open>src\<close>.
\<close>

definition slice :: "string \<Rightarrow> int \<Rightarrow> int \<Rightarrow> string" where
  "slice content first_byte last_byte =
     take (nat (last_byte - first_byte + 1)) (drop (nat first_byte) content)"

text \<open>
  Modelled from the spec: \<open>utils.md5Sum(src, start, end)\<close> is not among the source
  files. The spec's Checksum Service is followed: \<open>digest(source, range)\<close> is a digest
  over exactly the bytes in the given range. The hash function is the argument \<open>md5\<close>.
\<close>

definition md5Sum :: "(string \<Rightarrow> string) \<Rightarrow> string \<Rightarrow> int \<Rightarrow> int \<Rightarrow> string" where
  "md5Sum md5 content first_byte last_byte = md5 (slice content first_byte last_byte)"

subsection \<open>\<open>prepare\<close>\<close>

text \<open>
  \<open>fileUploadParameters\<close> awaits \<open>client.project.describe\<close> and throws when the result
  has no \<open>fileUploadParameters\<close> (here \<open>Resolved None\<close>); \<open>prepare\<close> plans the
  ranges of the file for the \<open>maximumPartSize\<close> found.
\<close>

definition fileUploadParameters :: "int option promise \<Rightarrow> int promise" where
  "fileUploadParameters described =
     (case described of
        Resolved (Some maximumPartSize) \<Rightarrow> Resolved maximumPartSize
      | Resolved None \<Rightarrow> Rejected ''missing file upload parameters''
      | other \<Rightarrow> unsettled other)"

definition prepare ::
  "int option promise \<Rightarrow> UploadTransfer \<Rightarrow> string \<Rightarrow> api_call list \<times> IByteRange list promise" where
  "prepare described t projectId =
     ([ProjectDescribe projectId],
      (case fileUploadParameters described of
         Resolved maximumPartSize \<Rightarrow>
           (case byteRanges (src_size t) maximumPartSize of
              Inl InvalidSizeError \<Rightarrow> Rejected ''InvalidSizeError''
            | Inr ranges \<Rightarrow> Resolved ranges)
       | other \<Rightarrow> unsettled other))"

subsection \<open>\<open>transfer\<close>\<close>

text \<open>
  How one part goes: \<open>client.file.upload\<close> rejects, or the PUT request is made and then
  its callback gets an error, or gets none, or its \<open>abort\<close> event fires. The digest
  is taken to be delivered. The callback reads only its \<open>error\<close> argument, so a
  response with an HTTP error status is the case \<open>PutDone\<close>.
\<close>

datatype part_outcome = UploadRejected string | PutError string | PutDone | PutAborted

text \<open>
  \<open>transfer_begin\<close> is \<open>transfer\<close> up to the creation of the request: the read stream
  is created, the digest awaited, the upload URL awaited, the request made and stored in
  \<open>this.request\<close>. \<open>transfer_end\<close> is what the handlers of the request do.
  The promise \<open>transfer\<close> returns is resolved only by the callback without error.
\<close>

definition transfer_begin ::
  "(string \<Rightarrow> string) \<Rightarrow> string \<Rightarrow> part_outcome \<Rightarrow> UploadTransfer
     \<Rightarrow> string \<Rightarrow> int \<Rightarrow> int \<Rightarrow> int \<Rightarrow> api_call list \<times> UploadTransfer \<times> unit promise" where
  "transfer_begin md5 content outcome t file_id i first_byte last_byte =
     (let sz = last_byte - first_byte + 1;
          digest = md5Sum md5 content first_byte last_byte;
          calls = [CreateReadStream (src t) first_byte last_byte, Md5Sum (src t) first_byte last_byte,
                   FileUpload file_id i digest sz]
      in case outcome of
           UploadRejected e \<Rightarrow> (calls, t, Rejected e)
         | _ \<Rightarrow>
             (calls @ [Put (slice content first_byte last_byte)],
              t\<lparr>request := Some \<lparr>part_index = i, aborted = False\<rparr>\<rparr>,
              Resolved ()))"

definition transfer_end ::
  "part_outcome \<Rightarrow> UploadTransfer \<Rightarrow> int \<Rightarrow> api_call list \<times> UploadTransfer \<times> unit promise" where
  "transfer_end outcome t sz =
     (case outcome of
        PutError e \<Rightarrow> ([Finished (Some e)], t, Pending)
      | PutDone \<Rightarrow> ([], t\<lparr>bytesRead := bytesRead t + sz\<rparr>, Resolved ())
      | PutAborted \<Rightarrow> ([Finished (Some ''upload aborted'')], t, Pending)
      | UploadRejected e \<Rightarrow> ([], t, Pending))"

definition transfer ::
  "(string \<Rightarrow> string) \<Rightarrow> string \<Rightarrow> part_outcome \<Rightarrow> UploadTransfer
     \<Rightarrow> string \<Rightarrow> int \<Rightarrow> int \<Rightarrow> int \<Rightarrow> api_call list \<times> UploadTransfer \<times> unit promise" where
  "transfer md5 content outcome t file_id i first_byte last_byte =
     (case transfer_begin md5 content outcome t file_id i first_byte last_byte of
        (calls, t', Resolved _) \<Rightarrow>
          (case transfer_end outcome t' (last_byte - first_byte + 1) of
             (calls', t'', p) \<Rightarrow> (calls @ calls', t'', p))
      | (calls, t', p) \<Rightarrow> (calls, t', unsettled p))"

subsection \<open>\<open>start\<close>\<close>

text \<open>
  The loop \<open>for (let i = 0; i < ranges.length; i++) await this.transfer(id, i + 1, start, end)\<close>,
  from position \<open>i\<close> of the plan on; \<open>outcomes\<close> gives the outcome of the part at each
  position.
\<close>

fun upload_parts ::
  "(string \<Rightarrow> string) \<Rightarrow> string \<Rightarrow> (nat \<Rightarrow> part_outcome) \<Rightarrow> UploadTransfer
     \<Rightarrow> string \<Rightarrow> nat \<Rightarrow> IByteRange list \<Rightarrow> api_call list \<times> UploadTransfer \<times> unit promise" where
  "upload_parts md5 content outcomes t file_id i [] = ([], t, Resolved ())"
| "upload_parts md5 content outcomes t file_id i (r # rs) =
     (case transfer md5 content (outcomes i) t file_id (int i + 1) (range_start r) (range_end r) of
        (calls, t', Resolved _) \<Rightarrow>
          (case upload_parts md5 content outcomes t' file_id (Suc i) rs of
             (calls', t'', p) \<Rightarrow> (calls @ calls', t'', p))
      | (calls, t', p) \<Rightarrow> (calls, t', unsettled p))"


text \<open>
  What the environment of one \<open>start\<close> decides: the plan \<open>prepare\<close> resolves with, the
  id \<open>client.file.new\<close> resolves with, the outcome of each part, and whether
  \<open>client.file.close\<close> resolves. \<open>name\<close> stands for \<open>path.basename(this.src)\<close>.
\<close>

record upload_env =
  prepared :: "IByteRange list promise"
  created :: "string promise"
  outcomes :: "nat \<Rightarrow> part_outcome"
  closed :: "unit promise"


subsection \<open>\<open>abort\<close>\<close>

text \<open>
  The body of \<open>abort\<close> is \<open>if (request) { request.abort(); }\<close>. The method has no local
  \<open>request\<close>, and a field is reached only through \<open>this\<close>, so the name is the binding
  of \<open>import * as request from 'request'\<close>: the HTTP library, the function called as
  \<open>request(url, ...)\<close> in \<open>transfer\<close>, which is truthy. \<open>module_has_abort\<close> says
  whether that function object has a callable \<open>abort\<close> member; if not, the call throws
  a \<open>TypeError\<close>. The result is the object after the call, the calls made and the error
  thrown, if any.
\<close>

definition abort :: "bool \<Rightarrow> UploadTransfer \<Rightarrow> UploadTransfer \<times> api_call list \<times> string option" where
  "abort module_has_abort t =
     (if module_has_abort then (t, [ModuleAbort], None)
      else (t, [], Some ''TypeError: request.abort is not a function''))"

chapter \<open>Properties\<close>

section \<open>The size formatter\<close>

text \<open>
  Claim C10. \<open>readableFileSize\<close> returns the string \<open>0 GB\<close> (not \<open>0 B\<close>) both when
  \<open>bytes\<close> is 0 and when it is NaN, whatever \<open>roundNumbers\<close> and \<open>divisor\<close> are,
  given or omitted.
\<close>

theorem readableFileSize_zero_or_NaN:
  "readableFileSize NaN roundNumbers divisor = ''0 GB''
   \<and> readableFileSize (Finite 0) roundNumbers divisor = ''0 GB''"
  by (simp add: readableFileSize_def)

section \<open>The byte-range plan\<close>

lemma ranges_from_tiles:
  "0 < maxPartSize \<Longrightarrow> offset \<le> fileSize \<Longrightarrow>
     tiles offset (ranges_from offset fileSize maxPartSize) fileSize"
proof (induction offset fileSize maxPartSize rule: ranges_from.induct)
  case (1 offset fileSize maxPartSize)
  show ?case
  proof (cases "fileSize \<le> offset")
    case True
    with "1.prems" show ?thesis by (subst ranges_from.simps) simp
  next
    case False
    show ?thesis
    proof (cases "offset + maxPartSize \<le> fileSize")
      case True
      with False "1.prems" "1.IH" show ?thesis
        by (subst ranges_from.simps) (simp add: min_def)
    next
      case over: False
      with False "1.prems" have "ranges_from (offset + maxPartSize) fileSize maxPartSize = []"
        by (subst ranges_from.simps) simp
      with False over "1.prems" show ?thesis
        by (subst ranges_from.simps) (simp add: min_def)
    qed
  qed
qed

lemma ranges_from_sizes:
  "0 < maxPartSize \<Longrightarrow>
     list_all (\<lambda>r. range_size r \<le> maxPartSize) (ranges_from offset fileSize maxPartSize)"
proof (induction offset fileSize maxPartSize rule: ranges_from.induct)
  case (1 offset fileSize maxPartSize)
  then show ?case
    by (subst ranges_from.simps) (simp add: range_size_def min_def)
qed

lemma tiles_le: "tiles a rs b \<Longrightarrow> a \<le> b"
  by (induction rs arbitrary: a) fastforce+

lemma tiles_covered: "tiles a rs b \<Longrightarrow> covered rs = {a ..< b}"
proof (induction rs arbitrary: a)
  case Nil
  then show ?case by (simp add: covered_def)
next
  case (Cons r rs)
  then have rest: "covered rs = {range_end r + 1 ..< b}" and le: "range_end r + 1 \<le> b"
    and st: "range_start r = a" "a \<le> range_end r"
    by (auto dest: tiles_le)
  have "covered (r # rs) = {range_start r .. range_end r} \<union> covered rs"
    by (simp add: covered_def)
  with rest le st show ?case by auto
qed

text \<open>
  Claim C7. For every \<open>fileSize \<ge> 0\<close> and \<open>maxPartSize > 0\<close> the plan of an upload
  (what \<open>byteRanges\<close> returns and \<open>prepare\<close> resolves with) is a sequence of ranges
  in order, without overlap and without gap, from byte \<open>0\<close> to byte \<open>fileSize - 1\<close>; the
  bytes they cover are exactly \<open>[0, fileSize)\<close>, and no range is larger than
  \<open>maxPartSize\<close>. The plan is a function of the two sizes, so the same inputs give the
  same plan.
\<close>

theorem byteRanges_plan_covers_file:
  assumes "0 \<le> fileSize" and "0 < maxPartSize"
  shows "\<exists>rs. byteRanges fileSize maxPartSize = Inr rs
           \<and> prepare (Resolved (Some maxPartSize)) (t\<lparr>src_size := fileSize\<rparr>) projectId
                = ([ProjectDescribe projectId], Resolved rs)
           \<and> tiles 0 rs fileSize
           \<and> covered rs = {0 ..< fileSize}
           \<and> list_all (\<lambda>r. range_size r \<le> maxPartSize) rs"
proof -
  let ?rs = "ranges_from 0 fileSize maxPartSize"
  from assms have plan: "byteRanges fileSize maxPartSize = Inr ?rs"
    by (simp add: byteRanges_def)
  from assms have t: "tiles 0 ?rs fileSize" by (simp add: ranges_from_tiles)
  from plan t tiles_covered[OF t] ranges_from_sizes[OF assms(2)]
  show ?thesis
    by (simp add: prepare_def fileUploadParameters_def)
qed

text \<open>The plan of the spec's example, a file of 100000 bytes in parts of at most 30000.\<close>

theorem byteRanges_plan_covers_file_witness:
  "(0::int) \<le> 100000 \<and> (0::int) < 30000
   \<and> byteRanges 100000 30000 =
        Inr [\<lparr>range_start = 0, range_end = 29999\<rparr>, \<lparr>range_start = 30000, range_end = 59999\<rparr>,
             \<lparr>range_start = 60000, range_end = 89999\<rparr>, \<lparr>range_start = 90000, range_end = 99999\<rparr>]
   \<and> tiles 0 [\<lparr>range_start = 0, range_end = 29999\<rparr>, \<lparr>range_start = 30000, range_end = 59999\<rparr>,
             \<lparr>range_start = 60000, range_end = 89999\<rparr>, \<lparr>range_start = 90000, range_end = 99999\<rparr>]
        100000
   \<and> covered [\<lparr>range_start = 0, range_end = 29999\<rparr>, \<lparr>range_start = 30000, range_end = 59999\<rparr>,
             \<lparr>range_start = 60000, range_end = 89999\<rparr>, \<lparr>range_start = 90000, range_end = 99999\<rparr>]
        = {0 ..< 100000}"
proof -
  have plan: "byteRanges 100000 30000 =
        Inr [\<lparr>range_start = 0, range_end = 29999\<rparr>, \<lparr>range_start = 30000, range_end = 59999\<rparr>,
             \<lparr>range_start = 60000, range_end = 89999\<rparr>, \<lparr>range_start = 90000, range_end = 99999\<rparr>]"
    by (simp add: byteRanges_def ranges_from.simps)
  from byteRanges_plan_covers_file
         [of 100000 30000 "\<lparr>src = [], src_size = 0, request = None, bytesRead = 0\<rparr>" "[]"] plan
  show ?thesis by simp
qed

section \<open>The command-line backend\<close>

subsection \<open>Download\<close>



subsection \<open>Polling the remote size\<close>









subsection \<open>Upload\<close>


lemma finished_calls_append: "finished_calls (xs @ ys) = finished_calls xs @ finished_calls ys"
  by (induction xs rule: finished_calls.induct) simp_all

lemma finished_calls_uploadFile:
  "finished_calls (fst (snd (uploadFile needs_analysis_tag remove_result upload_result tag_result
                                file basename projectId remoteFolder_arg)))
    = finished_calls
        (upload_callback needs_analysis_tag
           (dxRemotePath_of projectId
              (case remoteFolder_arg of None \<Rightarrow> ''/uploads'' | Some f \<Rightarrow> f) basename)
           upload_result tag_result)"
  by (cases remove_result)
     (simp_all add: uploadFile_def runCommandSync_def Let_def finished_calls_append)

text \<open>
  Claim C2, as amended. When the upload command succeeds and the tagging command fails,
  the tagging error is passed to the finished callback, as \<open>(err, null)\<close>, in its first
  invocation: the error is reported, not dropped. When the tagging command succeeds
  the finished callback is invoked exactly once, with \<open>(null, stdout)\<close>.
\<close>

theorem uploadFile_tag_failure_reported:
  "(tag_result = CommandError e \<longrightarrow>
      (\<exists>later.
         finished_calls (fst (snd (uploadFile needs_analysis_tag remove_result (CommandOutput out)
                                     tag_result file basename projectId remoteFolder_arg)))
           = (Some e, None) # later))
   \<and> (tag_result = CommandOutput out' \<longrightarrow>
         finished_calls (fst (snd (uploadFile needs_analysis_tag remove_result (CommandOutput out)
                                     tag_result file basename projectId remoteFolder_arg)))
           = [(None, Some out')])"
  by (simp add: finished_calls_uploadFile upload_callback_def tag_callback_def callback_args_def
        finishedCbWrapper_def)

theorem uploadFile_tag_failure_reported_witness:
  "(\<exists>later.
      finished_calls (fst (snd (uploadFile ''needs-analysis'' Returns (CommandOutput ''file-1'')
         (CommandError ''tag failed'')
         \<lparr>path = ''/data/a.bam'', raw_size = Finite 100, sizeCheckingLock = False,
          largestReportedProgress = Finite 0\<rparr> ''a.bam'' ''project-1'' None)))
        = (Some ''tag failed'', None) # later)
   \<and> finished_calls (fst (snd (uploadFile ''needs-analysis'' Returns (CommandOutput ''file-1'')
         (CommandOutput ''tagged'')
         \<lparr>path = ''/data/a.bam'', raw_size = Finite 100, sizeCheckingLock = False,
          largestReportedProgress = Finite 0\<rparr> ''a.bam'' ''project-1'' None)))
        = [(None, Some ''tagged'')]"
  using uploadFile_tag_failure_reported
          [of "CommandError ''tag failed''" "''tag failed''" "''needs-analysis''" Returns
              "''file-1''"
              "\<lparr>path = ''/data/a.bam'', raw_size = Finite 100, sizeCheckingLock = False,
                largestReportedProgress = Finite 0\<rparr>"
              "''a.bam''" "''project-1''" None "''tagged''"]
        uploadFile_tag_failure_reported
          [of "CommandOutput ''tagged''" "''tag failed''" "''needs-analysis''" Returns
              "''file-1''"
              "\<lparr>path = ''/data/a.bam'', raw_size = Finite 100, sizeCheckingLock = False,
                largestReportedProgress = Finite 0\<rparr>"
              "''a.bam''" "''project-1''" None "''tagged''"]
  by simp

text \<open>
  Claim C2 as stated (one invocation, reporting success) fails: with a failing tagging
  command the finished callback is invoked twice, first with the error and then with
  \<open>(null, null)\<close>.
\<close>

theorem uploadFile_tag_failure_two_callbacks:
  "finished_calls (fst (snd (uploadFile ''needs-analysis'' Returns (CommandOutput ''file-1'')
       (CommandError ''tag failed'')
       \<lparr>path = ''/data/a.bam'', raw_size = Finite 100, sizeCheckingLock = False,
        largestReportedProgress = Finite 0\<rparr> ''a.bam'' ''project-1'' None)))
   = [(Some ''tag failed'', None), (None, None)]"
  by (simp add: finished_calls_uploadFile upload_callback_def tag_callback_def callback_args_def
        finishedCbWrapper_def)

section \<open>The API backend\<close>

subsection \<open>One part\<close>

text \<open>
  Claim C6. For a part covering the bytes \<open>first_byte..last_byte\<close>, the digest sent with
  the upload-part request is the digest of exactly those bytes of the source file, the
  size sent is \<open>last_byte - first_byte + 1\<close>, and the digest is computed before any
  byte is transmitted: the calls of \<open>transfer\<close> start with the read stream, the digest
  and the upload-part request, in this order; if a PUT follows, its body is those same
  bytes, and no digest is computed after it.
\<close>

theorem transfer_digest_before_put:
  "\<exists>rest t' p.
     transfer md5 content outcome t file_id i first_byte last_byte =
       ([CreateReadStream (src t) first_byte last_byte,
         Md5Sum (src t) first_byte last_byte,
         FileUpload file_id i (md5 (slice content first_byte last_byte))
           (last_byte - first_byte + 1)]
          @ rest, t', p)
     \<and> (rest = []
          \<or> (\<exists>after. rest = Put (slice content first_byte last_byte) # after
                \<and> (\<forall>a b c. Md5Sum a b c \<notin> set after)))"
  by (cases outcome) (simp_all add: transfer_def transfer_begin_def transfer_end_def md5Sum_def)





subsection \<open>The parts of a plan\<close>








subsection \<open>Abort\<close>

text \<open>
  Claim C3. With a part transfer in flight, \<open>abort()\<close> aborts the request of that part,
  no further part is requested, and the finished callback gets the error
  \<open>upload aborted\<close>.

  The code does not do this. \<open>abort\<close> never reaches \<open>this.request\<close>: whatever the
  imported module offers, the object is left as it was and the finished callback is not
  called. In the upload below the request of part 1 is in flight when \<open>abort()\<close> is
  called; the call throws a \<open>TypeError\<close>, the request is not aborted, its callback
  resolves the transfer, and part 2 is requested and sent.
\<close>

theorem abort_leaves_request_in_flight:
  "fst (abort module_has_abort t) = t
   \<and> (\<forall>e. Finished e \<notin> set (fst (snd (abort module_has_abort t))))
   \<and> abort False \<lparr>src = ''/data/a.bam'', src_size = 10,
                   request = Some \<lparr>part_index = 1, aborted = False\<rparr>, bytesRead = 0\<rparr>
     = (\<lparr>src = ''/data/a.bam'', src_size = 10,
         request = Some \<lparr>part_index = 1, aborted = False\<rparr>, bytesRead = 0\<rparr>,
        [], Some ''TypeError: request.abort is not a function'')
   \<and> transfer_end PutDone
        \<lparr>src = ''/data/a.bam'', src_size = 10,
         request = Some \<lparr>part_index = 1, aborted = False\<rparr>, bytesRead = 0\<rparr> 5
     = ([], \<lparr>src = ''/data/a.bam'', src_size = 10,
             request = Some \<lparr>part_index = 1, aborted = False\<rparr>, bytesRead = 5\<rparr>, Resolved ())
   \<and> upload_parts rev ''0123456789'' (\<lambda>j. PutDone)
        \<lparr>src = ''/data/a.bam'', src_size = 10,
         request = Some \<lparr>part_index = 1, aborted = False\<rparr>, bytesRead = 5\<rparr>
        ''file-1'' 1 [\<lparr>range_start = 5, range_end = 9\<rparr>]
     = ([CreateReadStream ''/data/a.bam'' 5 9, Md5Sum ''/data/a.bam'' 5 9,
         FileUpload ''file-1'' 2 ''98765'' 5, Put ''56789''],
        \<lparr>src = ''/data/a.bam'', src_size = 10,
         request = Some \<lparr>part_index = 2, aborted = False\<rparr>, bytesRead = 10\<rparr>, Resolved ())"
  by (simp add: abort_def transfer_end_def transfer_def transfer_begin_def md5Sum_def slice_def)

end
